theory Spec2Isabelle
  imports Main "HOL-Library.AList"
begin

section \<open>Python values used by the simulator\<close>

text \<open>
  Python integers are unbounded: \<^typ>\<open>int\<close>. A coordinate (a two-element list or a tuple
  of integers in the source) is a pair of integers, row first. A \<open>dict\<close> keeps its keys
  in insertion order and assigning to a key that is already present keeps the key's place:
  it is an association list updated with \<^const>\<open>AList.update\<close>; \<open>len\<close> is
  \<^const>\<open>length\<close>, \<open>list(d.keys())\<close> is \<open>map fst\<close>, \<open>k in d\<close> is membership in the keys.
  Strings are lists of code points below 256.
\<close>

type_synonym pos = "int \<times> int"

type_synonym 'k pydict = "('k \<times> bool) list"

definition keys :: "'k pydict \<Rightarrow> 'k list" where
  "keys d = map fst d"

subsection \<open>Formatting, as the f-strings of the source do it\<close>

fun show_nat :: "nat \<Rightarrow> string" where
  "show_nat n =
     (if n < 10 then [''0123456789'' ! n]
      else show_nat (n div 10) @ [''0123456789'' ! (n mod 10)])"

declare show_nat.simps [simp del]

definition show_int :: "int \<Rightarrow> string" where
  "show_int i = (if i < 0 then ''-'' @ show_nat (nat (- i)) else show_nat (nat i))"

definition show_bool :: "bool \<Rightarrow> string" where
  "show_bool b = (if b then ''True'' else ''False'')"

text \<open>The \<open>repr\<close> of a two-element list of integers: \<open>[1, 2]\<close>.\<close>

definition show_pos :: "pos \<Rightarrow> string" where
  "show_pos p = ''['' @ show_int (fst p) @ '', '' @ show_int (snd p) @ '']''"

text \<open>\<open>str.lower\<close> on code points below 256.\<close>

definition lower_char :: "char \<Rightarrow> char" where
  "lower_char c =
     (let n = (of_char c :: nat)
      in if (65 \<le> n \<and> n \<le> 90) \<or> (192 \<le> n \<and> n \<le> 222 \<and> n \<noteq> 215)
         then char_of (n + 32) else c)"

definition lower :: "string \<Rightarrow> string" where
  "lower s = map lower_char s"

section \<open>The log messages\<close>

text \<open>
  One function for each f-string the source passes to \<open>log\<close>, taking the values the
  f-string interpolates. A list is formatted by its \<open>repr\<close>, a boolean as \<open>True\<close> or
  \<open>False\<close>; \<open>CHR 0x0A\<close> is the newline that three of them start with.
\<close>

definition msg_config_start :: "string \<Rightarrow> string" where
  "msg_config_start name =
     ''--- '' @ name @ '': Simulator Config start''"

definition msg_init_grid :: "string \<Rightarrow> int \<Rightarrow> int \<Rightarrow> string" where
  "msg_init_grid name h w =
     ''--- '' @ name @ '': Initialise Grid '' @ show_int h @ '' x '' @ show_int w"

definition msg_rock_outside :: "string \<Rightarrow> pos \<Rightarrow> int \<Rightarrow> int \<Rightarrow> string" where
  "msg_rock_outside name r h w =
     ''--- '' @ name @ '': warning: Rock at '' @ show_pos r @ '' is outside the ''
       @ show_int h @ '' x '' @ show_int w @ '' lawn. Ignoring.''"

definition msg_valid_rocks :: "string \<Rightarrow> int \<Rightarrow> int \<Rightarrow> string" where
  "msg_valid_rocks name n m =
     ''--- '' @ name @ '': '' @ show_int n @ '' valid Rock positions defined inside grid. ''
       @ show_int m @ '' Rocks outside grid disregarded''"

definition msg_total_grass :: "string \<Rightarrow> int \<Rightarrow> string" where
  "msg_total_grass name n =
     ''--- '' @ name @ '': Initialize Total Grass squares '' @ show_int n"

definition msg_init_uncut :: "string \<Rightarrow> int \<Rightarrow> string" where
  "msg_init_uncut name n =
     ''--- '' @ name @ '': Initialize Remaining Uncut '' @ show_int n"

definition msg_init_all_cut :: "string \<Rightarrow> bool \<Rightarrow> string" where
  "msg_init_all_cut name b =
     ''--- '' @ name @ '': Initialize All Grass Cut status '' @ show_bool b"

definition msg_start_outside :: "string \<Rightarrow> pos \<Rightarrow> int \<Rightarrow> int \<Rightarrow> string" where
  "msg_start_outside name p h w =
     ''--- '' @ name @ '': WARNING: start pos at '' @ show_pos p @ '' is outside the ''
       @ show_int h @ '' x '' @ show_int w @ '' lawn. Resetting to top left [0,0]''"

definition msg_init_start :: "string \<Rightarrow> pos \<Rightarrow> string" where
  "msg_init_start name p =
     ''--- '' @ name @ '': Initialise start position at '' @ show_pos p"

definition msg_init_visited :: "string \<Rightarrow> int \<Rightarrow> string" where
  "msg_init_visited name n =
     ''--- '' @ name @ '': Initialise Number of Cells Visited '' @ show_int n
       @ '' (start position counts 1 already)''"

definition msg_init_moves :: "string \<Rightarrow> string" where
  "msg_init_moves name =
     ''--- '' @ name @ '': Initialise Number of Moves 0''"

definition msg_init_crash :: "string \<Rightarrow> bool \<Rightarrow> string \<Rightarrow> string" where
  "msg_init_crash name b reason =
     ''--- '' @ name @ '': Initialise Crash Status '' @ show_bool b @ '' for Reason '' @ reason"

definition msg_current_position :: "string \<Rightarrow> pos \<Rightarrow> string" where
  "msg_current_position name p =
     ''--- '' @ name @ '': Current Position '' @ show_pos p"

definition msg_execute_move :: "string \<Rightarrow> string \<Rightarrow> string" where
  "msg_execute_move name mv =
     ''--- '' @ name @ '': execute move '' @ mv"

definition msg_last_position :: "string \<Rightarrow> pos \<Rightarrow> string" where
  "msg_last_position name p =
     ''--- '' @ name @ '': Last Position '' @ show_pos p"

definition msg_check_crashed :: "string \<Rightarrow> string" where
  "msg_check_crashed name =
     ''--- '' @ name @ '': check if crashed''"

definition msg_rock_crash :: "string \<Rightarrow> string" where
  "msg_rock_crash name =
     ''--- '' @ name @ '': rock crash!''"

definition msg_fence_crash :: "string \<Rightarrow> string" where
  "msg_fence_crash name =
     ''--- '' @ name @ '': fence crash!''"

definition msg_termination :: "string \<Rightarrow> string \<Rightarrow> string" where
  "msg_termination name reason =
     ''--- '' @ name @ '': Termination: '' @ reason"

definition msg_no_crash :: "string \<Rightarrow> string" where
  "msg_no_crash name =
     ''--- '' @ name @ '': no crash''"

definition msg_number_visited :: "string \<Rightarrow> int \<Rightarrow> string" where
  "msg_number_visited name n =
     ''--- '' @ name @ '': number_visited_cells: '' @ show_int n"

definition msg_remaining_uncut :: "string \<Rightarrow> int \<Rightarrow> string" where
  "msg_remaining_uncut name n =
     ''--- '' @ name @ '': remaining uncut: '' @ show_int n"

definition msg_all_cut :: "string \<Rightarrow> string" where
  "msg_all_cut name =
     ''--- '' @ name @ '': All Gras Cut''"

definition msg_still_to_cut :: "string \<Rightarrow> string" where
  "msg_still_to_cut name =
     ''--- '' @ name @ '': Still Gras to Cut''"

definition msg_move_failed :: "string \<Rightarrow> string" where
  "msg_move_failed name =
     ''--- '' @ name @ '': Move Failed due crash''"

definition msg_move_ok :: "string \<Rightarrow> string" where
  "msg_move_ok name =
     ''--- '' @ name @ '': Move OK''"

definition msg_move_index :: "string \<Rightarrow> int \<Rightarrow> string" where
  "msg_move_index name step =
     CHR 0x0A # ''--- '' @ name @ '': Move index '' @ show_int step"

definition msg_success :: "string \<Rightarrow> string" where
  "msg_success name =
     CHR 0x0A # ''--- '' @ name @ '': Simulator Success. All Moves done''"

definition msg_fail :: "string \<Rightarrow> string" where
  "msg_fail name =
     CHR 0x0A # ''--- '' @ name @ '': Simulator Fail due Crash. Move abort''"

definition msg_output :: "string \<Rightarrow> string" where
  "msg_output name =
     ''--- '' @ name @ '': Output Sim Status Structure''"

section \<open>The simulator object\<close>

text \<open>The attributes of \<open>LawnmowerSim\<close>, in the order \<open>__init__\<close> assigns them.\<close>

record lawnmower_sim =
  test_name :: string
  messages :: "string list"
  grid_height :: int
  grid_width :: int
  rock_locations :: "pos list"
  valid_rocks :: "pos pydict"
  total_grass_squares :: int
  uncut_remaining :: int
  all_grass_cut :: bool
  start_pos :: pos
  last_pos :: pos
  visited_cells :: "pos pydict"
  number_visited_cells :: int
  pos_history :: "pos list"
  did_mower_crash :: bool
  crash_reason :: string

text \<open>\<open>log\<close> appends to \<open>self.messages\<close> (and prints, which is not modelled).\<close>

definition log :: "lawnmower_sim \<Rightarrow> string \<Rightarrow> lawnmower_sim" where
  "log self message = self\<lparr>messages := messages self @ [message]\<rparr>"

text \<open>
  An object before \<open>__init__\<close> has assigned anything. No attribute is read before
  \<open>__init__\<close> assigns it.
\<close>

definition blank :: lawnmower_sim where
  "blank = \<lparr>test_name = [], messages = [], grid_height = 0, grid_width = 0,
     rock_locations = [], valid_rocks = [], total_grass_squares = 0, uncut_remaining = 0,
     all_grass_cut = False, start_pos = (0, 0), last_pos = (0, 0), visited_cells = [],
     number_visited_cells = 0, pos_history = [], did_mower_crash = False,
     crash_reason = []\<rparr>"

text \<open>The loop of \<open>__init__\<close> over \<open>self.rock_locations\<close>.\<close>

fun filter_rocks :: "lawnmower_sim \<Rightarrow> pos list \<Rightarrow> lawnmower_sim" where
  "filter_rocks self [] = self"
| "filter_rocks self (r # rs) =
     (let row = fst r; col = snd r
      in if 0 \<le> row \<and> row < grid_height self \<and> 0 \<le> col \<and> col < grid_width self
         then filter_rocks
                (self\<lparr>valid_rocks := AList.update (fst r, snd r) True (valid_rocks self)\<rparr>) rs
         else filter_rocks
                (log self (msg_rock_outside (test_name self) r (grid_height self)
                             (grid_width self))) rs)"

text \<open>\<open>LawnmowerSim(test_name, grid_height, grid_width, rock_locations, start_pos)\<close>.\<close>

definition LawnmowerSim ::
  "string \<Rightarrow> int \<Rightarrow> int \<Rightarrow> pos list \<Rightarrow> pos \<Rightarrow> lawnmower_sim" where
  "LawnmowerSim name height width rocks start =
     (let self = blank\<lparr>test_name := name\<rparr>;
          self = self\<lparr>messages := []\<rparr>;
          self = log self (msg_config_start (test_name self));
          self = self\<lparr>grid_height := height\<rparr>;
          self = self\<lparr>grid_width := width\<rparr>;
          self = log self (msg_init_grid (test_name self) (grid_height self) (grid_width self));
          self = self\<lparr>rock_locations := rocks\<rparr>;
          self = self\<lparr>valid_rocks := []\<rparr>;
          self = filter_rocks self (rock_locations self);
          self = log self (msg_valid_rocks (test_name self)
                   (int (length (valid_rocks self)))
                   (int (length (rock_locations self)) - int (length (valid_rocks self))));
          self = self\<lparr>total_grass_squares :=
                   grid_width self * grid_height self - int (length (valid_rocks self))\<rparr>;
          self = log self (msg_total_grass (test_name self) (total_grass_squares self));
          self = self\<lparr>uncut_remaining := total_grass_squares self - 1\<rparr>;
          self = log self (msg_init_uncut (test_name self) (uncut_remaining self));
          self = self\<lparr>all_grass_cut := False\<rparr>;
          self = log self (msg_init_all_cut (test_name self) (all_grass_cut self));
          self = (if 0 \<le> fst start \<and> fst start < grid_height self
                     \<and> 0 \<le> snd start \<and> snd start < grid_width self
                  then self\<lparr>start_pos := (fst start, snd start)\<rparr>
                  else log (self\<lparr>start_pos := (0, 0)\<rparr>)
                         (msg_start_outside (test_name self) start (grid_height self)
                            (grid_width self)));
          self = self\<lparr>last_pos := (fst (start_pos self), snd (start_pos self))\<rparr>;
          self = log self (msg_init_start (test_name self) start);
          self = self\<lparr>visited_cells := [((fst start, snd start), True)]\<rparr>;
          self = self\<lparr>number_visited_cells := 1\<rparr>;
          self = log self (msg_init_visited (test_name self) (number_visited_cells self));
          self = self\<lparr>pos_history := [start_pos self]\<rparr>;
          self = log self (msg_init_moves (test_name self));
          self = self\<lparr>did_mower_crash := False\<rparr>;
          self = self\<lparr>crash_reason := ''None''\<rparr>;
          self = log self (msg_init_crash (test_name self) (did_mower_crash self)
                   (crash_reason self))
      in self)"

section \<open>One move\<close>

text \<open>
  \<open>move\<close> returns its boolean together with the object as the call leaves it. A token
  other than the four directions falls through the \<open>if\<close>/\<open>elif\<close> chain and leaves
  \<open>last_pos\<close> as it is.
\<close>

definition move :: "lawnmower_sim \<Rightarrow> string \<Rightarrow> bool \<times> lawnmower_sim" where
  "move self mv =
     (let self = log self (msg_current_position (test_name self) (last_pos self));
          self = log self (msg_execute_move (test_name self) mv);
          self = (if mv = ''up'' then
                    self\<lparr>last_pos := (fst (last_pos self) - 1, snd (last_pos self))\<rparr>
                  else if mv = ''down'' then
                    self\<lparr>last_pos := (fst (last_pos self) + 1, snd (last_pos self))\<rparr>
                  else if mv = ''left'' then
                    self\<lparr>last_pos := (fst (last_pos self), snd (last_pos self) - 1)\<rparr>
                  else if mv = ''right'' then
                    self\<lparr>last_pos := (fst (last_pos self), snd (last_pos self) + 1)\<rparr>
                  else self);
          self = log self (msg_last_position (test_name self) (last_pos self));
          self = self\<lparr>pos_history :=
                   pos_history self @ [(fst (last_pos self), snd (last_pos self))]\<rparr>;
          self = log self (msg_check_crashed (test_name self));
          self =
            (if last_pos self \<in> set (keys (valid_rocks self)) then
               (let self = log self (msg_rock_crash (test_name self));
                    self = self\<lparr>did_mower_crash := True\<rparr>;
                    self = self\<lparr>crash_reason := ''Crashed into Rock''\<rparr>
                in log self (msg_termination (test_name self) (crash_reason self)))
             else if \<not> (0 \<le> fst (last_pos self) \<and> fst (last_pos self) < grid_height self
                         \<and> 0 \<le> snd (last_pos self) \<and> snd (last_pos self) < grid_width self)
             then
               (let self = log self (msg_fence_crash (test_name self));
                    self = self\<lparr>did_mower_crash := True\<rparr>;
                    self = self\<lparr>crash_reason := ''Crashed into Fence''\<rparr>
                in log self (msg_termination (test_name self) (crash_reason self)))
             else
               (let self = log self (msg_no_crash (test_name self));
                    self = self\<lparr>visited_cells :=
                      AList.update (fst (last_pos self), snd (last_pos self)) True
                        (visited_cells self)\<rparr>;
                    self = self\<lparr>number_visited_cells := int (length (visited_cells self))\<rparr>;
                    self = log self (msg_number_visited (test_name self)
                             (number_visited_cells self));
                    self = self\<lparr>uncut_remaining :=
                             total_grass_squares self - number_visited_cells self\<rparr>;
                    self = log self (msg_remaining_uncut (test_name self)
                             (uncut_remaining self));
                    self = self\<lparr>all_grass_cut := (uncut_remaining self = 0)\<rparr>
                in if all_grass_cut self
                   then log self (msg_all_cut (test_name self))
                   else log self (msg_still_to_cut (test_name self))))
      in if did_mower_crash self
         then (False, log self (msg_move_failed (test_name self)))
         else (True, log self (msg_move_ok (test_name self))))"

section \<open>Running a path\<close>

text \<open>
  The \<open>for step, move in enumerate(path)\<close> loop of \<open>execute_path\<close>, from index \<open>step\<close>
  on: it leaves at the first move that returns \<open>False\<close>.
\<close>

fun run_path :: "lawnmower_sim \<Rightarrow> nat \<Rightarrow> string list \<Rightarrow> lawnmower_sim" where
  "run_path self step [] = self"
| "run_path self step (mv # rest) =
     (let self = log self (msg_move_index (test_name self) (int step));
          (ok, self) = move self (lower mv)
      in if \<not> ok then self else run_path self (Suc step) rest)"

text \<open>The values a \<open>sim_status\<close> entry holds.\<close>

datatype pyval =
    PyStr string
  | PyInt int
  | PyBool bool
  | PyPos pos
  | PyPosList "pos list"
  | PyStrList "string list"

text \<open>
  \<open>execute_path\<close> returns the \<open>sim_status\<close> dict, its entries in the order of the
  literal, together with the object as the call leaves it.
\<close>

definition execute_path ::
  "lawnmower_sim \<Rightarrow> string list \<Rightarrow> (string \<times> pyval) list \<times> lawnmower_sim" where
  "execute_path self path =
     (let self = run_path self 0 path;
          self = (if \<not> did_mower_crash self
                  then log self (msg_success (test_name self))
                  else log self (msg_fail (test_name self)));
          self = log self (msg_output (test_name self));
          sim_status =
            [(''test_name'', PyStr (test_name self)),
             (''grid_width'', PyInt (grid_width self)),
             (''grid_height'', PyInt (grid_height self)),
             (''rock_locations'', PyPosList (rock_locations self)),
             (''valid_rocks'', PyPosList (keys (valid_rocks self))),
             (''start_pos'', PyPos (start_pos self)),
             (''total_grass_squares'', PyInt (total_grass_squares self)),
             (''all_grass_cut'', PyBool (all_grass_cut self)),
             (''uncut_grass_remaining'', PyInt (uncut_remaining self)),
             (''did_mower_crash'', PyBool (did_mower_crash self)),
             (''crash_reason'', PyStr (crash_reason self)),
             (''pos_history'', PyPosList (pos_history self)),
             (''visited_cells'', PyPosList (keys (visited_cells self))),
             (''last_pos'', PyPos (last_pos self)),
             (''messages'', PyStrList (messages self))]
      in (sim_status, self))"

section \<open>Notions the properties are stated with\<close>

text \<open>A coordinate inside a grid of the given height and width.\<close>

definition in_bounds :: "int \<Rightarrow> int \<Rightarrow> pos \<Rightarrow> bool" where
  "in_bounds height width p =
     (0 \<le> fst p \<and> fst p < height \<and> 0 \<le> snd p \<and> snd p < width)"

text \<open>The coordinate \<open>move\<close> computes from the current one: the unit offset of the
  direction, and the coordinate itself for any other token.\<close>

definition candidate :: "string \<Rightarrow> pos \<Rightarrow> pos" where
  "candidate mv p =
     (if mv = ''up'' then (fst p - 1, snd p)
      else if mv = ''down'' then (fst p + 1, snd p)
      else if mv = ''left'' then (fst p, snd p - 1)
      else if mv = ''right'' then (fst p, snd p + 1)
      else p)"

text \<open>A list with every repeated occurrence of an element after its first removed.\<close>

fun first_occurrences :: "'a list \<Rightarrow> 'a list" where
  "first_occurrences [] = []"
| "first_occurrences (x # xs) = x # first_occurrences (filter (\<lambda>y. y \<noteq> x) xs)"

section \<open>What each operation does to each attribute\<close>

lemma log_fields [simp]:
  "test_name (log s m) = test_name s"
  "messages (log s m) = messages s @ [m]"
  "grid_height (log s m) = grid_height s"
  "grid_width (log s m) = grid_width s"
  "rock_locations (log s m) = rock_locations s"
  "valid_rocks (log s m) = valid_rocks s"
  "total_grass_squares (log s m) = total_grass_squares s"
  "uncut_remaining (log s m) = uncut_remaining s"
  "all_grass_cut (log s m) = all_grass_cut s"
  "start_pos (log s m) = start_pos s"
  "last_pos (log s m) = last_pos s"
  "visited_cells (log s m) = visited_cells s"
  "number_visited_cells (log s m) = number_visited_cells s"
  "pos_history (log s m) = pos_history s"
  "did_mower_crash (log s m) = did_mower_crash s"
  "crash_reason (log s m) = crash_reason s"
  by (simp_all add: log_def)

lemma filter_rocks_Cons:
  "filter_rocks s (r # rs) =
     (if in_bounds (grid_height s) (grid_width s) r
      then filter_rocks (s\<lparr>valid_rocks := AList.update r True (valid_rocks s)\<rparr>) rs
      else filter_rocks
             (log s (msg_rock_outside (test_name s) r (grid_height s) (grid_width s))) rs)"
  by (simp add: Let_def in_bounds_def)

lemma filter_rocks_fields [simp]:
  "test_name (filter_rocks s rs) = test_name s"
  "grid_height (filter_rocks s rs) = grid_height s"
  "grid_width (filter_rocks s rs) = grid_width s"
  "rock_locations (filter_rocks s rs) = rock_locations s"
  "total_grass_squares (filter_rocks s rs) = total_grass_squares s"
  "uncut_remaining (filter_rocks s rs) = uncut_remaining s"
  "all_grass_cut (filter_rocks s rs) = all_grass_cut s"
  "start_pos (filter_rocks s rs) = start_pos s"
  "last_pos (filter_rocks s rs) = last_pos s"
  "visited_cells (filter_rocks s rs) = visited_cells s"
  "number_visited_cells (filter_rocks s rs) = number_visited_cells s"
  "pos_history (filter_rocks s rs) = pos_history s"
  "did_mower_crash (filter_rocks s rs) = did_mower_crash s"
  "crash_reason (filter_rocks s rs) = crash_reason s"
  by (induction rs arbitrary: s; simp add: filter_rocks_Cons del: filter_rocks.simps(2))+

lemma keys_update: "keys (AList.update k v d) = (if k \<in> set (keys d) then keys d else keys d @ [k])"
  by (simp add: keys_def update_keys)

lemma update_True:
  "\<forall>v \<in> snd ` set d. v \<Longrightarrow>
     AList.update k True d = (if k \<in> set (keys d) then d else d @ [(k, True)])"
  by (induction d) (auto simp: keys_def)

lemma valid_rocks_filter_rocks:
  "\<forall>v \<in> snd ` set (valid_rocks s). v \<Longrightarrow>
   valid_rocks (filter_rocks s rs) =
     valid_rocks s
       @ map (\<lambda>k. (k, True))
           (first_occurrences
              (filter (\<lambda>r. in_bounds (grid_height s) (grid_width s) r
                            \<and> r \<notin> set (keys (valid_rocks s))) rs))"
proof (induction rs arbitrary: s)
  case Nil
  show ?case by simp
next
  case (Cons r rs)
  show ?case
  proof (cases "in_bounds (grid_height s) (grid_width s) r")
    case False
    with Cons.prems show ?thesis
      by (simp add: filter_rocks_Cons Cons.IH del: filter_rocks.simps(2))
  next
    case inb: True
    show ?thesis
    proof (cases "r \<in> set (keys (valid_rocks s))")
      case True
      with inb Cons.prems show ?thesis
        by (simp add: filter_rocks_Cons Cons.IH update_True del: filter_rocks.simps(2))
    next
      case False
      have upd: "AList.update r True (valid_rocks s) = valid_rocks s @ [(r, True)]"
        using False Cons.prems by (simp add: update_True)
      have all: "\<forall>v \<in> snd ` set
          (valid_rocks (s\<lparr>valid_rocks := AList.update r True (valid_rocks s)\<rparr>)). v"
        using Cons.prems by (auto simp: upd)
      have "valid_rocks
              (filter_rocks (s\<lparr>valid_rocks := AList.update r True (valid_rocks s)\<rparr>) rs) =
            (valid_rocks s @ [(r, True)])
              @ map (\<lambda>k. (k, True))
                  (first_occurrences
                     (filter (\<lambda>x. in_bounds (grid_height s) (grid_width s) x
                                   \<and> x \<notin> set (keys (valid_rocks s @ [(r, True)]))) rs))"
        using Cons.IH [OF all] by (simp add: upd)
      moreover have
        "filter (\<lambda>x. in_bounds (grid_height s) (grid_width s) x
                      \<and> x \<notin> set (keys (valid_rocks s @ [(r, True)]))) rs =
         filter (\<lambda>y. y \<noteq> r)
           (filter (\<lambda>x. in_bounds (grid_height s) (grid_width s) x
                         \<and> x \<notin> set (keys (valid_rocks s))) rs)"
        by (auto simp: keys_def intro: filter_cong)
      ultimately show ?thesis
        using False inb by (simp add: filter_rocks_Cons del: filter_rocks.simps(2))
    qed
  qed
qed

lemma valid_rocks_LawnmowerSim:
  "valid_rocks (LawnmowerSim name h w rocks start) =
     map (\<lambda>k. (k, True)) (first_occurrences (filter (in_bounds h w) rocks))"
  by (cases "in_bounds h w start";
      simp add: LawnmowerSim_def Let_def valid_rocks_filter_rocks blank_def keys_def
        flip: in_bounds_def cong: let_weak_cong)

lemma LawnmowerSim_fields:
  "test_name (LawnmowerSim name h w rocks start) = name"
  "grid_height (LawnmowerSim name h w rocks start) = h"
  "grid_width (LawnmowerSim name h w rocks start) = w"
  "rock_locations (LawnmowerSim name h w rocks start) = rocks"
  "total_grass_squares (LawnmowerSim name h w rocks start) =
     w * h - int (length (first_occurrences (filter (in_bounds h w) rocks)))"
  "uncut_remaining (LawnmowerSim name h w rocks start) =
     w * h - int (length (first_occurrences (filter (in_bounds h w) rocks))) - 1"
  "all_grass_cut (LawnmowerSim name h w rocks start) = False"
  "start_pos (LawnmowerSim name h w rocks start) =
     (if in_bounds h w start then start else (0, 0))"
  "last_pos (LawnmowerSim name h w rocks start) =
     (if in_bounds h w start then start else (0, 0))"
  "visited_cells (LawnmowerSim name h w rocks start) = [(start, True)]"
  "number_visited_cells (LawnmowerSim name h w rocks start) = 1"
  "pos_history (LawnmowerSim name h w rocks start) =
     [if in_bounds h w start then start else (0, 0)]"
  "did_mower_crash (LawnmowerSim name h w rocks start) = False"
  "crash_reason (LawnmowerSim name h w rocks start) = ''None''"
  by (cases "in_bounds h w start";
      simp add: LawnmowerSim_def Let_def valid_rocks_filter_rocks blank_def keys_def
        flip: in_bounds_def cong: let_weak_cong)+

lemma keys_valid_rocks_LawnmowerSim:
  "keys (valid_rocks (LawnmowerSim name h w rocks start)) =
     first_occurrences (filter (in_bounds h w) rocks)"
  by (simp add: valid_rocks_LawnmowerSim keys_def comp_def)

text \<open>
  What \<open>move\<close> does, attribute by attribute. The coordinate it appends and tests is
  \<^const>\<open>candidate\<close> of the token and the current coordinate.
\<close>

lemma move_direction:
  "(if mv = ''up'' then s\<lparr>last_pos := (fst (last_pos s) - 1, snd (last_pos s))\<rparr>
    else if mv = ''down'' then s\<lparr>last_pos := (fst (last_pos s) + 1, snd (last_pos s))\<rparr>
    else if mv = ''left'' then s\<lparr>last_pos := (fst (last_pos s), snd (last_pos s) - 1)\<rparr>
    else if mv = ''right'' then s\<lparr>last_pos := (fst (last_pos s), snd (last_pos s) + 1)\<rparr>
    else s) = s\<lparr>last_pos := candidate mv (last_pos s)\<rparr>"
  by (simp add: candidate_def)

lemma move_unchanged [simp]:
  "test_name (snd (move s mv)) = test_name s"
  "grid_height (snd (move s mv)) = grid_height s"
  "grid_width (snd (move s mv)) = grid_width s"
  "rock_locations (snd (move s mv)) = rock_locations s"
  "valid_rocks (snd (move s mv)) = valid_rocks s"
  "total_grass_squares (snd (move s mv)) = total_grass_squares s"
  "start_pos (snd (move s mv)) = start_pos s"
  by (cases "candidate mv (last_pos s) \<in> set (keys (valid_rocks s))";
      cases "in_bounds (grid_height s) (grid_width s) (candidate mv (last_pos s))";
      simp add: move_def Let_def move_direction flip: in_bounds_def cong: let_weak_cong)+

lemma move_changed:
  "last_pos (snd (move s mv)) = candidate mv (last_pos s)"
  "pos_history (snd (move s mv)) = pos_history s @ [candidate mv (last_pos s)]"
  "visited_cells (snd (move s mv)) =
     (if candidate mv (last_pos s) \<in> set (keys (valid_rocks s))
         \<or> \<not> in_bounds (grid_height s) (grid_width s) (candidate mv (last_pos s))
      then visited_cells s
      else AList.update (candidate mv (last_pos s)) True (visited_cells s))"
  "uncut_remaining (snd (move s mv)) =
     (if candidate mv (last_pos s) \<in> set (keys (valid_rocks s))
         \<or> \<not> in_bounds (grid_height s) (grid_width s) (candidate mv (last_pos s))
      then uncut_remaining s
      else total_grass_squares s
             - int (length (AList.update (candidate mv (last_pos s)) True (visited_cells s))))"
  "all_grass_cut (snd (move s mv)) =
     (if candidate mv (last_pos s) \<in> set (keys (valid_rocks s))
         \<or> \<not> in_bounds (grid_height s) (grid_width s) (candidate mv (last_pos s))
      then all_grass_cut s
      else total_grass_squares s
             - int (length (AList.update (candidate mv (last_pos s)) True (visited_cells s)))
           = 0)"
  "did_mower_crash (snd (move s mv)) =
     (did_mower_crash s
      \<or> candidate mv (last_pos s) \<in> set (keys (valid_rocks s))
      \<or> \<not> in_bounds (grid_height s) (grid_width s) (candidate mv (last_pos s)))"
  "crash_reason (snd (move s mv)) =
     (if candidate mv (last_pos s) \<in> set (keys (valid_rocks s)) then ''Crashed into Rock''
      else if \<not> in_bounds (grid_height s) (grid_width s) (candidate mv (last_pos s))
      then ''Crashed into Fence''
      else crash_reason s)"
  "fst (move s mv) = (\<not> did_mower_crash (snd (move s mv)))"
  by (cases "candidate mv (last_pos s) \<in> set (keys (valid_rocks s))";
      cases "in_bounds (grid_height s) (grid_width s) (candidate mv (last_pos s))";
      simp add: move_def Let_def move_direction flip: in_bounds_def cong: let_weak_cong)+

text \<open>The loop of \<open>execute_path\<close>, with the boolean of \<open>move\<close> read off the crash flag.\<close>

lemma run_path_Cons:
  "run_path s k (mv # rest) =
     (if did_mower_crash (snd (move (log s (msg_move_index (test_name s) (int k))) (lower mv)))
      then snd (move (log s (msg_move_index (test_name s) (int k))) (lower mv))
      else run_path (snd (move (log s (msg_move_index (test_name s) (int k))) (lower mv)))
             (Suc k) rest)"
  by (simp add: Let_def case_prod_unfold move_changed(8))

lemma run_path_invariant:
  assumes "P s"
    and "\<And>s m. P s \<Longrightarrow> P (log s m)"
    and "\<And>s mv. P s \<Longrightarrow> P (snd (move s mv))"
  shows "P (run_path s k path)"
  using assms(1)
proof (induction path arbitrary: s k)
  case Nil
  then show ?case by simp
next
  case (Cons mv rest)
  have "P (snd (move (log s (msg_move_index (test_name s) (int k))) (lower mv)))"
    using Cons.prems assms(2,3) by blast
  then show ?case
    using Cons.IH by (simp add: run_path_Cons del: run_path.simps(2))
qed

lemma run_path_unchanged [simp]:
  "test_name (run_path s k path) = test_name s"
  "grid_height (run_path s k path) = grid_height s"
  "grid_width (run_path s k path) = grid_width s"
  "rock_locations (run_path s k path) = rock_locations s"
  "valid_rocks (run_path s k path) = valid_rocks s"
  "total_grass_squares (run_path s k path) = total_grass_squares s"
  "start_pos (run_path s k path) = start_pos s"
  by (induction path arbitrary: s k; simp add: run_path_Cons del: run_path.simps(2))+

text \<open>After its loop \<open>execute_path\<close> only logs: the object it leaves differs from the
  loop's in \<open>messages\<close> alone, and the dict holds the attributes of that object.\<close>

lemma execute_path_object:
  "test_name (snd (execute_path s path)) = test_name s"
  "grid_height (snd (execute_path s path)) = grid_height s"
  "grid_width (snd (execute_path s path)) = grid_width s"
  "rock_locations (snd (execute_path s path)) = rock_locations s"
  "valid_rocks (snd (execute_path s path)) = valid_rocks s"
  "total_grass_squares (snd (execute_path s path)) = total_grass_squares s"
  "start_pos (snd (execute_path s path)) = start_pos s"
  "uncut_remaining (snd (execute_path s path)) = uncut_remaining (run_path s 0 path)"
  "all_grass_cut (snd (execute_path s path)) = all_grass_cut (run_path s 0 path)"
  "last_pos (snd (execute_path s path)) = last_pos (run_path s 0 path)"
  "visited_cells (snd (execute_path s path)) = visited_cells (run_path s 0 path)"
  "number_visited_cells (snd (execute_path s path)) = number_visited_cells (run_path s 0 path)"
  "pos_history (snd (execute_path s path)) = pos_history (run_path s 0 path)"
  "did_mower_crash (snd (execute_path s path)) = did_mower_crash (run_path s 0 path)"
  "crash_reason (snd (execute_path s path)) = crash_reason (run_path s 0 path)"
  by (simp_all add: execute_path_def Let_def cong: let_weak_cong)

lemma execute_path_status:
  "map_of (fst (execute_path s path)) ''all_grass_cut'' =
     Some (PyBool (all_grass_cut (snd (execute_path s path))))"
  "map_of (fst (execute_path s path)) ''uncut_grass_remaining'' =
     Some (PyInt (uncut_remaining (snd (execute_path s path))))"
  "map_of (fst (execute_path s path)) ''did_mower_crash'' =
     Some (PyBool (did_mower_crash (snd (execute_path s path))))"
  "map_of (fst (execute_path s path)) ''crash_reason'' =
     Some (PyStr (crash_reason (snd (execute_path s path))))"
  "map_of (fst (execute_path s path)) ''pos_history'' =
     Some (PyPosList (pos_history (snd (execute_path s path))))"
  "map_of (fst (execute_path s path)) ''visited_cells'' =
     Some (PyPosList (keys (visited_cells (snd (execute_path s path)))))"
  "map_of (fst (execute_path s path)) ''valid_rocks'' =
     Some (PyPosList (keys (valid_rocks (snd (execute_path s path)))))"
  "map_of (fst (execute_path s path)) ''total_grass_squares'' =
     Some (PyInt (total_grass_squares (snd (execute_path s path))))"
  "map_of (fst (execute_path s path)) ''last_pos'' =
     Some (PyPos (last_pos (snd (execute_path s path))))"
  "map_of (fst (execute_path s path)) ''start_pos'' =
     Some (PyPos (start_pos (snd (execute_path s path))))"
  by (simp_all add: execute_path_def Let_def cong: let_weak_cong)

subsection \<open>First occurrences\<close>

lemma set_first_occurrences [simp]: "set (first_occurrences xs) = set xs"
  by (induction xs rule: first_occurrences.induct) auto

lemma distinct_first_occurrences [simp]: "distinct (first_occurrences xs)"
  by (induction xs rule: first_occurrences.induct) auto

lemma length_first_occurrences: "length (first_occurrences xs) \<le> length xs"
proof (induction xs rule: first_occurrences.induct)
  case 1
  show ?case by simp
next
  case (2 x xs)
  have "length (filter (\<lambda>y. y \<noteq> x) xs) \<le> length xs" by simp
  with 2 have "length (first_occurrences (filter (\<lambda>y. y \<noteq> x) xs)) \<le> length xs"
    by (rule order_trans)
  then show ?case by simp
qed

lemma first_occurrences_distinct: "distinct xs \<Longrightarrow> first_occurrences xs = xs"
proof (induction xs)
  case Nil
  show ?case by simp
next
  case (Cons x xs)
  then have "filter (\<lambda>y. y \<noteq> x) xs = xs"
    by (auto intro: filter_True)
  with Cons show ?case by simp
qed

section \<open>Concrete runs\<close>

lemma lower_tokens:
  "lower ''up'' = ''up''" "lower ''down'' = ''down''"
  "lower ''left'' = ''left''" "lower ''right'' = ''right''"
  by code_simp+

lemmas run_simps =
  run_path_Cons move_changed execute_path_object execute_path_status LawnmowerSim_fields
  valid_rocks_LawnmowerSim lower_tokens candidate_def in_bounds_def keys_def

text \<open>
  C7. The run with grid height 3 and width 2, obstacles \<open>[[1,1],[0,1]]\<close>, start \<open>[0,0]\<close>
  and moves down, down, right returns a record with \<open>all_grass_cut\<close> true,
  \<open>did_mower_crash\<close> false and \<open>uncut_grass_remaining\<close> 0, whatever the test name.
\<close>

theorem scenario_valid_path:
  "map_of (fst (execute_path (LawnmowerSim name 3 2 [(1, 1), (0, 1)] (0, 0))
                  [''down'', ''down'', ''right''])) ''all_grass_cut'' = Some (PyBool True)
   \<and> map_of (fst (execute_path (LawnmowerSim name 3 2 [(1, 1), (0, 1)] (0, 0))
                  [''down'', ''down'', ''right''])) ''did_mower_crash'' = Some (PyBool False)
   \<and> map_of (fst (execute_path (LawnmowerSim name 3 2 [(1, 1), (0, 1)] (0, 0))
                  [''down'', ''down'', ''right''])) ''uncut_grass_remaining'' = Some (PyInt 0)"
  by (simp add: run_simps del: run_path.simps(2))

section \<open>Construction\<close>

text \<open>
  C9, as stated, fails on a grid with no cell: the constructor does not check that height
  and width are positive, so \<open>(0, 0)\<close> is itself outside such a grid; given as the
  start it is reset to \<open>(0, 0)\<close> and recorded as visited.
\<close>

theorem origin_visited_counterexample:
  "\<not> in_bounds 0 5 (0, 0)
   \<and> start_pos (LawnmowerSim ''t'' 0 5 [] (0, 0)) = (0, 0)
   \<and> last_pos (LawnmowerSim ''t'' 0 5 [] (0, 0)) = (0, 0)
   \<and> (0, 0) \<in> set (keys (visited_cells (LawnmowerSim ''t'' 0 5 [] (0, 0))))"
  by (simp add: LawnmowerSim_fields keys_def in_bounds_def)

text \<open>
  C9, amended. When the start coordinate given to the constructor is outside the grid,
  \<open>start_pos\<close> and \<open>last_pos\<close> are reset to \<open>(0, 0)\<close>, while \<open>visited_cells\<close>
  holds the given coordinate alone; when height and width are positive, \<open>(0, 0)\<close> is
  therefore not recorded as visited.
\<close>

theorem out_of_bounds_start_visited:
  assumes "\<not> in_bounds h w start"
  shows "start_pos (LawnmowerSim name h w rocks start) = (0, 0)
       \<and> last_pos (LawnmowerSim name h w rocks start) = (0, 0)
       \<and> keys (visited_cells (LawnmowerSim name h w rocks start)) = [start]
       \<and> (0 < h \<and> 0 < w \<longrightarrow>
            (0, 0) \<notin> set (keys (visited_cells (LawnmowerSim name h w rocks start))))"
proof -
  have "start \<noteq> (0, 0)" if "0 < h" and "0 < w"
  proof -
    from that have "in_bounds h w (0, 0)"
      by (simp add: in_bounds_def)
    with assms show ?thesis
      by auto
  qed
  with assms show ?thesis
    by (auto simp: LawnmowerSim_fields keys_def)
qed

theorem out_of_bounds_start_visited_witness:
  "\<not> in_bounds 2 3 (5, 1) \<and> (0::int) < 2 \<and> (0::int) < 3
   \<and> start_pos (LawnmowerSim ''t'' 2 3 [] (5, 1)) = (0, 0)
   \<and> last_pos (LawnmowerSim ''t'' 2 3 [] (5, 1)) = (0, 0)
   \<and> keys (visited_cells (LawnmowerSim ''t'' 2 3 [] (5, 1))) = [(5, 1)]
   \<and> (0, 0) \<notin> set (keys (visited_cells (LawnmowerSim ''t'' 2 3 [] (5, 1))))"
proof -
  have h: "\<not> in_bounds 2 3 (5, 1)"
    by (simp add: in_bounds_def)
  from out_of_bounds_start_visited [OF h, of "''t''" "[]"] h show ?thesis
    by simp
qed

section \<open>Single moves\<close>

text \<open>
  C8. On an engine that has not crashed, \<open>move\<close> with a token other than up, down, left
  and right leaves the position as it is, appends a copy of it to \<open>pos_history\<close>, and makes
  the rock and fence checks on that position: the call returns true, and records no crash,
  exactly when the position is inside the grid and not a rock; otherwise the reason is the
  rock's when the position is a rock and the fence's when it is not.
\<close>

theorem unrecognised_token:
  assumes "\<not> did_mower_crash s"
    and "mv \<notin> {''up'', ''down'', ''left'', ''right''}"
  shows "last_pos (snd (move s mv)) = last_pos s
       \<and> pos_history (snd (move s mv)) = pos_history s @ [last_pos s]
       \<and> (fst (move s mv) \<longleftrightarrow>
            last_pos s \<notin> set (keys (valid_rocks s))
            \<and> in_bounds (grid_height s) (grid_width s) (last_pos s))
       \<and> (did_mower_crash (snd (move s mv)) \<longleftrightarrow> \<not> fst (move s mv))
       \<and> crash_reason (snd (move s mv)) =
           (if last_pos s \<in> set (keys (valid_rocks s)) then ''Crashed into Rock''
            else if \<not> in_bounds (grid_height s) (grid_width s) (last_pos s)
            then ''Crashed into Fence''
            else crash_reason s)"
proof -
  from assms(2) have "candidate mv (last_pos s) = last_pos s"
    by (simp add: candidate_def)
  with assms(1) show ?thesis
    by (simp add: move_changed)
qed

theorem unrecognised_token_witness:
  "\<not> did_mower_crash (LawnmowerSim ''t'' 2 2 [] (1, 0))
   \<and> ''UP'' \<notin> {''up'', ''down'', ''left'', ''right''}
   \<and> last_pos (snd (move (LawnmowerSim ''t'' 2 2 [] (1, 0)) ''UP'')) = (1, 0)
   \<and> pos_history (snd (move (LawnmowerSim ''t'' 2 2 [] (1, 0)) ''UP'')) = [(1, 0), (1, 0)]
   \<and> fst (move (LawnmowerSim ''t'' 2 2 [] (1, 0)) ''UP'')
   \<and> \<not> did_mower_crash (snd (move (LawnmowerSim ''t'' 2 2 [] (1, 0)) ''UP''))"
proof -
  have h1: "\<not> did_mower_crash (LawnmowerSim ''t'' 2 2 [] (1, 0))"
    by (simp add: LawnmowerSim_fields)
  have h2: "''UP'' \<notin> {''up'', ''down'', ''left'', ''right''}"
    by simp
  from unrecognised_token [OF h1 h2] h1 h2 show ?thesis
    by (simp add: LawnmowerSim_fields valid_rocks_LawnmowerSim in_bounds_def keys_def)
qed

lemma candidate_tokens:
  "candidate ''up'' (r, c) = (r - 1, c)" "candidate ''down'' (r, c) = (r + 1, c)"
  "candidate ''left'' (r, c) = (r, c - 1)" "candidate ''right'' (r, c) = (r, c + 1)"
  by (simp_all add: candidate_def)

text \<open>An engine that has recorded no crash still has the reason \<open>None\<close>.\<close>

lemma crash_reason_None_run_path:
  assumes "did_mower_crash s \<or> crash_reason s = ''None''"
  shows "did_mower_crash (run_path s k path) \<or> crash_reason (run_path s k path) = ''None''"
  by (rule run_path_invariant [where P = "\<lambda>s. did_mower_crash s \<or> crash_reason s = ''None''"])
     (use assms in \<open>auto simp: move_changed\<close>)

lemma rocks_in_grid:
  "r \<in> set (keys (valid_rocks (LawnmowerSim name h w rocks start))) \<Longrightarrow> in_bounds h w r"
  by (simp add: keys_valid_rocks_LawnmowerSim)

text \<open>
  C5. Take an engine as \<open>execute_path\<close> leaves it, not crashed, and a token among up, down,
  left and right. \<open>move\<close> returns false exactly when the candidate coordinate (the position
  moved by the unit offset of the direction) is a valid rock or lies outside the grid. The
  reason becomes \<open>Crashed into Rock\<close> on a rock, \<open>Crashed into Fence\<close> outside the grid;
  otherwise \<open>move\<close> returns true and the reason is still \<open>None\<close>.
\<close>

theorem move_crash_classification:
  assumes "s = snd (execute_path (LawnmowerSim name h w rocks start) path)"
    and "\<not> did_mower_crash s"
    and "mv \<in> {''up'', ''down'', ''left'', ''right''}"
  shows "(\<not> fst (move s mv) \<longleftrightarrow>
            candidate mv (last_pos s) \<in> set (keys (valid_rocks s))
            \<or> \<not> in_bounds h w (candidate mv (last_pos s)))
       \<and> (candidate mv (last_pos s) \<in> set (keys (valid_rocks s)) \<longrightarrow>
            crash_reason (snd (move s mv)) = ''Crashed into Rock'')
       \<and> (\<not> in_bounds h w (candidate mv (last_pos s)) \<longrightarrow>
            crash_reason (snd (move s mv)) = ''Crashed into Fence'')
       \<and> (candidate mv (last_pos s) \<notin> set (keys (valid_rocks s))
            \<and> in_bounds h w (candidate mv (last_pos s)) \<longrightarrow>
            fst (move s mv) \<and> crash_reason (snd (move s mv)) = ''None'')"
proof -
  let ?s0 = "LawnmowerSim name h w rocks start"
  have dims: "grid_height s = h" "grid_width s = w"
    and rocks: "valid_rocks s = valid_rocks ?s0"
    by (simp_all add: assms(1) execute_path_object LawnmowerSim_fields)
  have "did_mower_crash (run_path ?s0 0 path) \<or> crash_reason (run_path ?s0 0 path) = ''None''"
    by (rule crash_reason_None_run_path) (simp add: LawnmowerSim_fields)
  with assms(1,2) have none: "crash_reason s = ''None''"
    by (simp add: execute_path_object)
  have "in_bounds h w (candidate mv (last_pos s))"
    if "candidate mv (last_pos s) \<in> set (keys (valid_rocks s))"
    using that rocks_in_grid by (simp add: rocks)
  with assms(2) none show ?thesis
    by (auto simp: move_changed dims)
qed

theorem move_crash_classification_witness:
  "\<not> did_mower_crash (snd (execute_path (LawnmowerSim ''t'' 2 2 [(1, 1)] (0, 0)) [''down'']))
   \<and> ''right'' \<in> {''up'', ''down'', ''left'', ''right''}
   \<and> \<not> fst (move (snd (execute_path (LawnmowerSim ''t'' 2 2 [(1, 1)] (0, 0)) [''down'']))
               ''right'')
   \<and> crash_reason
        (snd (move (snd (execute_path (LawnmowerSim ''t'' 2 2 [(1, 1)] (0, 0)) [''down'']))
                ''right'')) = ''Crashed into Rock''"
proof -
  let ?s = "snd (execute_path (LawnmowerSim ''t'' 2 2 [(1, 1)] (0, 0)) [''down''])"
  have h2: "\<not> did_mower_crash ?s"
    by (simp add: run_simps del: run_path.simps(2))
  have h3: "''right'' \<in> {''up'', ''down'', ''left'', ''right''}"
    by simp
  have c: "candidate ''right'' (last_pos ?s) \<in> set (keys (valid_rocks ?s))"
    by (simp add: run_simps del: run_path.simps(2))
  from move_crash_classification [OF refl h2 h3] c h2 h3 show ?thesis
    by blast
qed

section \<open>Runs that make no legal move\<close>

lemma move_log:
  "fst (move (log s m) mv) = fst (move s mv)"
  "all_grass_cut (snd (move (log s m) mv)) = all_grass_cut (snd (move s mv))"
  by (simp_all add: move_changed)

text \<open>
  C10. When the move list is empty, or its first move, made on the engine as constructed,
  returns false, the record that \<open>execute_path\<close> returns has \<open>all_grass_cut\<close> false: the
  flag starts false and only a legal move computes it again. This is so even when
  \<open>uncut_grass_remaining\<close> is 0, as on a 1 by 1 grid with no obstacle and no move.
\<close>

theorem all_grass_cut_without_legal_move:
  assumes "path = [] \<or> \<not> fst (move (LawnmowerSim name h w rocks start) (lower (hd path)))"
  shows "map_of (fst (execute_path (LawnmowerSim name h w rocks start) path)) ''all_grass_cut''
           = Some (PyBool False)"
proof (cases path)
  case Nil
  then show ?thesis
    by (simp add: execute_path_status execute_path_object LawnmowerSim_fields)
next
  case (Cons mv rest)
  with assms have "\<not> fst (move (LawnmowerSim name h w rocks start) (lower mv))"
    by simp
  then show ?thesis
    by (simp add: Cons execute_path_status execute_path_object run_path_Cons move_changed
          LawnmowerSim_fields del: run_path.simps(2))
qed

theorem all_grass_cut_without_legal_move_witness:
  "\<not> fst (move (LawnmowerSim ''t'' 1 1 [] (0, 0)) (lower (hd [''up''])))
   \<and> map_of (fst (execute_path (LawnmowerSim ''t'' 1 1 [] (0, 0)) [''up''])) ''all_grass_cut''
       = Some (PyBool False)
   \<and> map_of (fst (execute_path (LawnmowerSim ''t'' 1 1 [] (0, 0)) []))
       ''all_grass_cut'' = Some (PyBool False)
   \<and> map_of (fst (execute_path (LawnmowerSim ''t'' 1 1 [] (0, 0)) []))
       ''uncut_grass_remaining'' = Some (PyInt 0)"
proof -
  have h: "\<not> fst (move (LawnmowerSim ''t'' 1 1 [] (0, 0)) (lower (hd [''up''])))"
    by (simp add: run_simps)
  have u: "map_of (fst (execute_path (LawnmowerSim ''t'' 1 1 [] (0, 0)) []))
       ''uncut_grass_remaining'' = Some (PyInt 0)"
    by (simp add: run_simps)
  from all_grass_cut_without_legal_move [of "[''up'']" "''t''" 1 1 "[]" "(0, 0)"]
    all_grass_cut_without_legal_move [of "[]" "''t''" 1 1 "[]" "(0, 0)"] h u
  show ?thesis
    by simp
qed

section \<open>After a crash\<close>

lemma run_path_append_crashed:
  "\<not> did_mower_crash s \<Longrightarrow> did_mower_crash (run_path s k pre) \<Longrightarrow>
     run_path s k (pre @ rest) = run_path s k pre"
proof (induction pre arbitrary: s k)
  case Nil
  then show ?case by simp
next
  case (Cons mv pre)
  let ?s' = "snd (move (log s (msg_move_index (test_name s) (int k))) (lower mv))"
  show ?case
  proof (cases "did_mower_crash ?s'")
    case True
    then show ?thesis
      by (simp add: run_path_Cons del: run_path.simps(2))
  next
    case False
    with Cons.prems(2) have "did_mower_crash (run_path ?s' (Suc k) pre)"
      by (simp add: run_path_Cons del: run_path.simps(2))
    with False have "run_path ?s' (Suc k) (pre @ rest) = run_path ?s' (Suc k) pre"
      by (rule Cons.IH)
    with False show ?thesis
      by (simp add: run_path_Cons del: run_path.simps(2))
  qed
qed

lemma execute_path_cong:
  "run_path s 0 p = run_path s 0 q \<Longrightarrow> execute_path s p = execute_path s q"
  by (simp add: execute_path_def)

text \<open>
  C4. Once a run of \<open>execute_path\<close> on a constructed engine has crashed, the moves that
  follow in the list change nothing: the record returned and the object left are those of
  the list cut after the crashing move, so that the later moves add no entry to
  \<open>pos_history\<close> and leave \<open>last_pos\<close>, \<open>visited_cells\<close>, \<open>uncut_remaining\<close> and
  \<open>all_grass_cut\<close> as they were. The crash flag stays true, and \<open>move\<close> itself never clears
  it.
\<close>

theorem crash_is_terminal:
  assumes "did_mower_crash (snd (execute_path (LawnmowerSim name h w rocks start) pre))"
  shows "execute_path (LawnmowerSim name h w rocks start) (pre @ rest) =
           execute_path (LawnmowerSim name h w rocks start) pre
       \<and> did_mower_crash (snd (execute_path (LawnmowerSim name h w rocks start) (pre @ rest)))
       \<and> did_mower_crash
           (snd (move (snd (execute_path (LawnmowerSim name h w rocks start) pre)) mv))"
proof -
  let ?s0 = "LawnmowerSim name h w rocks start"
  have "\<not> did_mower_crash ?s0"
    by (simp add: LawnmowerSim_fields)
  moreover from assms have "did_mower_crash (run_path ?s0 0 pre)"
    by (simp add: execute_path_object)
  ultimately have "run_path ?s0 0 (pre @ rest) = run_path ?s0 0 pre"
    by (rule run_path_append_crashed)
  then have "execute_path ?s0 (pre @ rest) = execute_path ?s0 pre"
    by (rule execute_path_cong)
  with assms show ?thesis
    by (simp add: move_changed)
qed

theorem crash_is_terminal_witness:
  "did_mower_crash (snd (execute_path (LawnmowerSim ''t'' 1 2 [] (0, 0)) [''up'']))
   \<and> execute_path (LawnmowerSim ''t'' 1 2 [] (0, 0)) ([''up''] @ [''right'']) =
       execute_path (LawnmowerSim ''t'' 1 2 [] (0, 0)) [''up'']
   \<and> pos_history (snd (execute_path (LawnmowerSim ''t'' 1 2 [] (0, 0)) ([''up''] @ [''right'']))) =
       [(0, 0), (- 1, 0)]"
proof -
  have h: "did_mower_crash (snd (execute_path (LawnmowerSim ''t'' 1 2 [] (0, 0)) [''up'']))"
    by (simp add: run_simps del: run_path.simps(2))
  have p: "pos_history (snd (execute_path (LawnmowerSim ''t'' 1 2 [] (0, 0)) [''up''])) =
       [(0, 0), (- 1, 0)]"
    by (simp add: run_simps del: run_path.simps(2))
  from crash_is_terminal [OF h, of "[''right'']"] h p show ?thesis
    by (simp del: append.simps)
qed

section \<open>The obstacles kept\<close>

text \<open>
  C6, as stated, asks \<open>valid_rocks\<close> to be the input list with the coordinates outside
  the grid removed. \<open>valid_rocks\<close> is a dict keyed by coordinate: a coordinate given twice
  is kept once.
\<close>

theorem valid_rocks_repeated_counterexample:
  "keys (valid_rocks (LawnmowerSim ''t'' 1 1 [(0, 0), (0, 0)] (0, 0))) = [(0, 0)]
   \<and> filter (in_bounds 1 1) [(0, 0), (0, 0)] = [(0, 0), (0, 0)]
   \<and> total_grass_squares (LawnmowerSim ''t'' 1 1 [(0, 0), (0, 0)] (0, 0)) = 0"
  by (simp add: keys_valid_rocks_LawnmowerSim LawnmowerSim_fields in_bounds_def)

text \<open>
  C6, amended. \<open>valid_rocks\<close> holds the input coordinates that are inside the grid, each
  once, in the order of their first occurrence in the input; it is the input with the
  coordinates outside the grid removed when no coordinate inside the grid is given twice.
  It has at most as many entries as the input. \<open>total_grass_squares\<close> is height times width
  minus the number of entries of \<open>valid_rocks\<close>, and neither \<open>move\<close> nor \<open>execute_path\<close>
  changes either.
\<close>

theorem valid_rocks_and_total:
  "keys (valid_rocks (LawnmowerSim name h w rocks start)) =
     first_occurrences (filter (in_bounds h w) rocks)
   \<and> (distinct (filter (in_bounds h w) rocks) \<longrightarrow>
        keys (valid_rocks (LawnmowerSim name h w rocks start)) = filter (in_bounds h w) rocks)
   \<and> length (valid_rocks (LawnmowerSim name h w rocks start)) \<le> length rocks
   \<and> total_grass_squares (LawnmowerSim name h w rocks start) =
        h * w - int (length (valid_rocks (LawnmowerSim name h w rocks start)))
   \<and> total_grass_squares (snd (move s mv)) = total_grass_squares s
   \<and> valid_rocks (snd (move s mv)) = valid_rocks s
   \<and> total_grass_squares (snd (execute_path s path)) = total_grass_squares s
   \<and> valid_rocks (snd (execute_path s path)) = valid_rocks s"
proof -
  have "length (first_occurrences (filter (in_bounds h w) rocks)) \<le> length rocks"
    by (rule order_trans [OF length_first_occurrences]) simp
  then show ?thesis
    by (simp add: keys_valid_rocks_LawnmowerSim valid_rocks_LawnmowerSim LawnmowerSim_fields
          first_occurrences_distinct execute_path_object mult.commute keys_def comp_def)
qed

theorem valid_rocks_and_total_witness:
  "distinct (filter (in_bounds 2 2) [(0, 1), (5, 5), (1, 0)])
   \<and> keys (valid_rocks (LawnmowerSim ''t'' 2 2 [(0, 1), (5, 5), (1, 0)] (0, 0))) =
       [(0, 1), (1, 0)]
   \<and> total_grass_squares (LawnmowerSim ''t'' 2 2 [(0, 1), (5, 5), (1, 0)] (0, 0)) = 2"
proof -
  have f: "filter (in_bounds 2 2) [(0, 1), (5, 5), (1, 0)] = [(0, 1), (1, 0)]"
    by (simp add: in_bounds_def)
  from valid_rocks_and_total [of "''t''" 2 2 "[(0, 1), (5, 5), (1, 0)]" "(0, 0)"] f
  show ?thesis
    by (simp add: valid_rocks_LawnmowerSim keys_def comp_def)
qed

section \<open>The visited cells and the count of uncut squares\<close>

text \<open>Every cell that a move adds to \<open>visited_cells\<close> is inside the grid and not a rock;
  the one entry that comes from elsewhere is the coordinate the constructor was given.\<close>

lemma visited_cells_run_path:
  assumes "\<forall>c \<in> set (keys (visited_cells s)).
             c = p \<or> in_bounds (grid_height s) (grid_width s) c
                      \<and> c \<notin> set (keys (valid_rocks s))"
  shows "\<forall>c \<in> set (keys (visited_cells (run_path s k path))).
           c = p \<or> in_bounds (grid_height s) (grid_width s) c
                    \<and> c \<notin> set (keys (valid_rocks s))"
proof -
  let ?P = "\<lambda>t :: lawnmower_sim. grid_height t = grid_height s \<and> grid_width t = grid_width s
              \<and> valid_rocks t = valid_rocks s
              \<and> (\<forall>c \<in> set (keys (visited_cells t)).
                    c = p \<or> in_bounds (grid_height s) (grid_width s) c
                             \<and> c \<notin> set (keys (valid_rocks s)))"
  have "?P (run_path s k path)"
  proof (rule run_path_invariant [where P = ?P])
    show "?P s" using assms by simp
  next
    fix t m assume "?P t"
    then show "?P (log t m)" by simp
  next
    fix t mv assume "?P t"
    then show "?P (snd (move t mv))"
      by (auto simp: move_changed keys_update)
  qed
  then show ?thesis by simp
qed

lemma counters_run_path:
  assumes "distinct (keys (visited_cells s))"
    and "uncut_remaining s = total_grass_squares s - int (length (visited_cells s))"
  shows "distinct (keys (visited_cells (run_path s k path)))
       \<and> uncut_remaining (run_path s k path) =
           total_grass_squares s - int (length (visited_cells (run_path s k path)))"
proof -
  let ?P = "\<lambda>t :: lawnmower_sim. total_grass_squares t = total_grass_squares s
              \<and> distinct (keys (visited_cells t))
              \<and> uncut_remaining t = total_grass_squares s - int (length (visited_cells t))"
  have "?P (run_path s k path)"
  proof (rule run_path_invariant [where P = ?P])
    show "?P s" using assms by simp
  next
    fix t m assume "?P t"
    then show "?P (log t m)" by simp
  next
    fix t mv assume "?P t"
    then show "?P (snd (move t mv))"
      by (simp add: move_changed keys_def distinct_update)
  qed
  then show ?thesis by simp
qed

lemma visited_cells_of_valid_start:
  assumes "in_bounds h w start" and "start \<notin> set rocks"
  shows "\<forall>c \<in> set (keys (visited_cells (run_path (LawnmowerSim name h w rocks start) k path))).
           in_bounds h w c \<and> c \<notin> set (keys (valid_rocks (LawnmowerSim name h w rocks start)))"
proof -
  let ?s0 = "LawnmowerSim name h w rocks start"
  have start: "start \<notin> set (keys (valid_rocks ?s0))"
    using assms(2) by (simp add: keys_valid_rocks_LawnmowerSim)
  have "\<forall>c \<in> set (keys (visited_cells (run_path ?s0 k path))).
          c = start \<or> in_bounds (grid_height ?s0) (grid_width ?s0) c
                       \<and> c \<notin> set (keys (valid_rocks ?s0))"
    by (rule visited_cells_run_path) (simp add: LawnmowerSim_fields keys_def)
  with assms(1) start show ?thesis
    by (auto simp: LawnmowerSim_fields)
qed

text \<open>
  C1, as stated, fails when the start coordinate is itself an obstacle: the constructor
  checks the start against the grid only, and records it as visited.
\<close>

theorem visited_rock_counterexample:
  "(0, 0) \<in> set (keys (visited_cells
      (snd (execute_path (LawnmowerSim ''t'' 1 2 [(0, 0)] (0, 0)) [''right'']))))
   \<and> (0, 0) \<in> set (keys (valid_rocks
      (snd (execute_path (LawnmowerSim ''t'' 1 2 [(0, 0)] (0, 0)) [''right'']))))"
  by (simp add: run_simps del: run_path.simps(2))

text \<open>
  C1, amended. When the start coordinate given to the constructor is inside the grid and is
  not one of the obstacles, then after any list of moves run by \<open>execute_path\<close> every
  coordinate in \<open>visited_cells\<close> is inside the grid and is not in \<open>valid_rocks\<close>.
\<close>

theorem visited_cells_legal:
  assumes "in_bounds h w start" and "start \<notin> set rocks"
  shows "\<forall>c \<in> set (keys (visited_cells
                  (snd (execute_path (LawnmowerSim name h w rocks start) path)))).
           in_bounds h w c
           \<and> c \<notin> set (keys (valid_rocks
                  (snd (execute_path (LawnmowerSim name h w rocks start) path))))"
  using visited_cells_of_valid_start [OF assms, of name 0 path]
  by (simp add: execute_path_object)

theorem visited_cells_legal_witness:
  "in_bounds 2 2 (0, 0) \<and> (0, 0) \<notin> set [(1, 1) :: pos]
   \<and> keys (visited_cells
          (snd (execute_path (LawnmowerSim ''t'' 2 2 [(1, 1)] (0, 0)) [''down''])))
       = [(0, 0), (1, 0)]
   \<and> in_bounds 2 2 (1, 0)
   \<and> (1, 0) \<notin> set (keys (valid_rocks
          (snd (execute_path (LawnmowerSim ''t'' 2 2 [(1, 1)] (0, 0)) [''down'']))))"
proof -
  have h1: "in_bounds 2 2 (0, 0)"
    by (simp add: in_bounds_def)
  have h2: "(0, 0) \<notin> set [(1, 1) :: pos]"
    by simp
  have v: "keys (visited_cells
          (snd (execute_path (LawnmowerSim ''t'' 2 2 [(1, 1)] (0, 0)) [''down''])))
       = [(0, 0), (1, 0)]"
    by (simp add: run_simps del: run_path.simps(2))
  then have "(1, 0) \<in> set (keys (visited_cells
          (snd (execute_path (LawnmowerSim ''t'' 2 2 [(1, 1)] (0, 0)) [''down'']))))"
    by simp
  with visited_cells_legal [OF h1 h2, of "''t''" "[''down'']"] h1 h2 v show ?thesis
    by blast
qed

text \<open>The cells of a grid, counted.\<close>

lemma grid_cells:
  "{c. in_bounds h w c} = {0..<h} \<times> {0..<w}"
  by (auto simp: in_bounds_def)

lemma card_grid_cells:
  "0 \<le> h \<Longrightarrow> 0 \<le> w \<Longrightarrow> int (card {c. in_bounds h w c}) = h * w"
  by (simp add: grid_cells card_cartesian_product)

text \<open>
  C2, as stated, fails when the start coordinate is itself an obstacle: on a grid of one
  cell that is an obstacle, \<open>uncut_remaining\<close> is \<open>-1\<close> from construction on.
\<close>

theorem uncut_remaining_negative_counterexample:
  "uncut_remaining (snd (execute_path (LawnmowerSim ''t'' 1 1 [(0, 0)] (0, 0)) [])) = - 1"
  by (simp add: run_simps)

text \<open>
  C2, amended. When the start coordinate given to the constructor is inside the grid and is
  not one of the obstacles, then after any list of moves run by \<open>execute_path\<close>
  \<open>uncut_remaining\<close> is not negative, and it is 0 exactly when every cell of the grid that
  is not in \<open>valid_rocks\<close> is in \<open>visited_cells\<close>.
\<close>

theorem uncut_remaining_counts:
  assumes "in_bounds h w start" and "start \<notin> set rocks"
  shows "0 \<le> uncut_remaining (snd (execute_path (LawnmowerSim name h w rocks start) path))
       \<and> (uncut_remaining (snd (execute_path (LawnmowerSim name h w rocks start) path)) = 0
            \<longleftrightarrow>
            (\<forall>c. in_bounds h w c
                  \<and> c \<notin> set (keys (valid_rocks
                        (snd (execute_path (LawnmowerSim name h w rocks start) path))))
               \<longrightarrow> c \<in> set (keys (visited_cells
                        (snd (execute_path (LawnmowerSim name h w rocks start) path))))))"
proof -
  let ?s0 = "LawnmowerSim name h w rocks start"
  let ?sf = "snd (execute_path ?s0 path)"
  let ?G = "{c. in_bounds h w c}"
  let ?R = "set (keys (valid_rocks ?s0))"
  let ?V = "set (keys (visited_cells ?sf))"
  have rocks_sf: "valid_rocks ?sf = valid_rocks ?s0"
    by (simp add: execute_path_object)
  have pos: "0 \<le> h" "0 \<le> w"
    using assms(1) by (auto simp: in_bounds_def)
  have finG: "finite ?G"
    by (simp add: grid_cells)
  have RG: "?R \<subseteq> ?G"
    by (auto simp: keys_valid_rocks_LawnmowerSim)
  have cardR: "card ?R = length (valid_rocks ?s0)"
  proof -
    have "distinct (keys (valid_rocks ?s0))"
      by (simp add: keys_valid_rocks_LawnmowerSim)
    then have "card ?R = length (keys (valid_rocks ?s0))"
      by (rule distinct_card)
    then show ?thesis
      by (simp add: keys_def)
  qed
  have VM: "?V \<subseteq> ?G - ?R"
    using visited_cells_of_valid_start [OF assms, of name 0 path]
    by (auto simp: execute_path_object)
  have "distinct (keys (visited_cells (run_path ?s0 0 path)))
      \<and> uncut_remaining (run_path ?s0 0 path) =
          total_grass_squares ?s0 - int (length (visited_cells (run_path ?s0 0 path)))"
    by (rule counters_run_path) (simp_all add: LawnmowerSim_fields keys_def)
  then have dist: "distinct (keys (visited_cells ?sf))"
    and uncut: "uncut_remaining ?sf = total_grass_squares ?s0 - int (length (visited_cells ?sf))"
    by (simp_all add: execute_path_object)
  have cardV: "card ?V = length (visited_cells ?sf)"
    using distinct_card [OF dist] by (simp add: keys_def)
  have "total_grass_squares ?s0 = w * h - int (length (valid_rocks ?s0))"
    by (simp add: LawnmowerSim_fields valid_rocks_LawnmowerSim)
  also have "\<dots> = int (card ?G) - int (card ?R)"
    unfolding cardR card_grid_cells [OF pos] by (simp add: mult.commute)
  finally have total: "total_grass_squares ?s0 = int (card ?G) - int (card ?R)" .
  have "card (?G - ?R) = card ?G - card ?R"
    using RG finG by (simp add: card_Diff_subset finite_subset)
  moreover have "card ?R \<le> card ?G"
    using RG finG by (rule card_mono [rotated])
  ultimately have total': "total_grass_squares ?s0 = int (card (?G - ?R))"
    using total by simp
  have le: "card ?V \<le> card (?G - ?R)"
    using VM finG by (simp add: card_mono)
  have "card ?V = card (?G - ?R) \<longleftrightarrow> ?V = ?G - ?R"
    using VM finG card_subset_eq [of "?G - ?R" ?V] by auto
  also have "\<dots> \<longleftrightarrow> ?G - ?R \<subseteq> ?V"
    using VM by auto
  finally have eq: "card ?V = card (?G - ?R) \<longleftrightarrow> ?G - ?R \<subseteq> ?V" .
  have "uncut_remaining ?sf = int (card (?G - ?R)) - int (card ?V)"
    by (simp add: uncut total' cardV)
  with le eq show ?thesis
    by (auto simp: rocks_sf)
qed

theorem uncut_remaining_counts_witness:
  "in_bounds 3 2 (0, 0) \<and> (0, 0) \<notin> set [(1, 1), (0, 1) :: pos]
   \<and> uncut_remaining (snd (execute_path (LawnmowerSim ''t'' 3 2 [(1, 1), (0, 1)] (0, 0))
        [''down'', ''down'', ''right''])) = 0
   \<and> in_bounds 3 2 (2, 1)
   \<and> (2, 1) \<notin> set (keys (valid_rocks
         (snd (execute_path (LawnmowerSim ''t'' 3 2 [(1, 1), (0, 1)] (0, 0))
            [''down'', ''down'', ''right'']))))
   \<and> (2, 1) \<in> set (keys (visited_cells
         (snd (execute_path (LawnmowerSim ''t'' 3 2 [(1, 1), (0, 1)] (0, 0))
            [''down'', ''down'', ''right'']))))"
proof -
  have h1: "in_bounds 3 2 (0, 0)"
    by (simp add: in_bounds_def)
  have h2: "(0, 0) \<notin> set [(1, 1), (0, 1) :: pos]"
    by simp
  have u: "uncut_remaining (snd (execute_path (LawnmowerSim ''t'' 3 2 [(1, 1), (0, 1)] (0, 0))
        [''down'', ''down'', ''right''])) = 0"
    by (simp add: run_simps del: run_path.simps(2))
  have c: "in_bounds 3 2 (2, 1)"
    by (simp add: in_bounds_def)
  have r: "(2, 1) \<notin> set (keys (valid_rocks
         (snd (execute_path (LawnmowerSim ''t'' 3 2 [(1, 1), (0, 1)] (0, 0))
            [''down'', ''down'', ''right'']))))"
    by (simp add: run_simps del: run_path.simps(2))
  from uncut_remaining_counts [OF h1 h2, of "''t''" "[''down'', ''down'', ''right'']"] h1 h2 u c r
  show ?thesis
    by blast
qed

section \<open>The history of positions\<close>

lemma length_update:
  "length (AList.update k v d) = (if k \<in> set (keys d) then length d else Suc (length d))"
  using arg_cong [OF update_keys [of k v d], of length] by (simp add: keys_def)

lemma run_path_length_visited:
  assumes "length (visited_cells s) \<le> length (pos_history s)"
  shows "length (visited_cells (run_path s k path)) \<le> length (pos_history (run_path s k path))"
  by (rule run_path_invariant
        [where P = "\<lambda>t. length (visited_cells t) \<le> length (pos_history t)"])
     (use assms in \<open>auto simp: move_changed length_update\<close>)

lemma run_path_last_pos:
  assumes "pos_history s \<noteq> [] \<and> last (pos_history s) = last_pos s"
  shows "last (pos_history (run_path s k path)) = last_pos (run_path s k path)"
proof -
  have "pos_history (run_path s k path) \<noteq> []
      \<and> last (pos_history (run_path s k path)) = last_pos (run_path s k path)"
    by (rule run_path_invariant
          [where P = "\<lambda>t. pos_history t \<noteq> [] \<and> last (pos_history t) = last_pos t"])
       (use assms in \<open>auto simp: move_changed\<close>)
  then show ?thesis by simp
qed

text \<open>A run that ends without a crash has made every move of the list.\<close>

lemma run_path_no_crash:
  "\<not> did_mower_crash (run_path s k path) \<Longrightarrow>
     length (pos_history (run_path s k path)) = length (pos_history s) + length path"
proof (induction path arbitrary: s k)
  case Nil
  show ?case by simp
next
  case (Cons mv rest)
  let ?s' = "snd (move (log s (msg_move_index (test_name s) (int k))) (lower mv))"
  from Cons.prems have no: "\<not> did_mower_crash ?s'"
    by (auto simp: run_path_Cons simp del: run_path.simps(2) split: if_splits)
  with Cons.prems have "\<not> did_mower_crash (run_path ?s' (Suc k) rest)"
    by (simp add: run_path_Cons del: run_path.simps(2))
  then have "length (pos_history (run_path ?s' (Suc k) rest)) =
      length (pos_history ?s') + length rest"
    by (rule Cons.IH)
  with no show ?case
    by (simp add: run_path_Cons move_changed del: run_path.simps(2))
qed

text \<open>A run that ends crashed has stopped at the first move that returned false: the list
  is the moves made legally, that move, and the moves never tried.\<close>

lemma run_path_crash:
  "\<not> did_mower_crash s \<Longrightarrow> did_mower_crash (run_path s k path) \<Longrightarrow>
     \<exists>pre mv rest. path = pre @ mv # rest
       \<and> \<not> did_mower_crash (run_path s k pre)
       \<and> run_path s k path =
           snd (move (log (run_path s k pre)
                        (msg_move_index (test_name s) (int (k + length pre))))
                  (lower mv))"
proof (induction path arbitrary: s k)
  case Nil
  then show ?case by simp
next
  case (Cons m ms)
  let ?s' = "snd (move (log s (msg_move_index (test_name s) (int k))) (lower m))"
  show ?case
  proof (cases "did_mower_crash ?s'")
    case True
    then have "run_path s k (m # ms) = ?s'"
      by (simp add: run_path_Cons del: run_path.simps(2))
    with Cons.prems(1) have "m # ms = [] @ m # ms
       \<and> \<not> did_mower_crash (run_path s k [])
       \<and> run_path s k (m # ms) =
           snd (move (log (run_path s k [])
                        (msg_move_index (test_name s) (int (k + length ([] :: string list)))))
                  (lower m))"
      by simp
    then show ?thesis by blast
  next
    case False
    then have step: "run_path s k (m # p) = run_path ?s' (Suc k) p" for p
      by (simp add: run_path_Cons del: run_path.simps(2))
    with Cons.prems(2) have "did_mower_crash (run_path ?s' (Suc k) ms)"
      by simp
    with False obtain pre mv rest where ms: "ms = pre @ mv # rest"
      and no: "\<not> did_mower_crash (run_path ?s' (Suc k) pre)"
      and run: "run_path ?s' (Suc k) ms =
           snd (move (log (run_path ?s' (Suc k) pre)
                        (msg_move_index (test_name ?s') (int (Suc k + length pre))))
                  (lower mv))"
      using Cons.IH [of ?s' "Suc k"] by blast
    have "m # ms = (m # pre) @ mv # rest
       \<and> \<not> did_mower_crash (run_path s k (m # pre))
       \<and> run_path s k (m # ms) =
           snd (move (log (run_path s k (m # pre))
                        (msg_move_index (test_name s) (int (k + length (m # pre)))))
                  (lower mv))"
      using ms no run by (simp add: step del: run_path.simps(2))
    then show ?thesis by blast
  qed
qed

text \<open>
  What holds of the two lists on every run: \<open>pos_history\<close> has one entry for the start and
  one for each move made, the crashing one included; \<open>visited_cells\<close> is never longer; the
  crashing move puts its coordinate last in \<open>pos_history\<close> and adds nothing to
  \<open>visited_cells\<close>, so that the coordinate is in \<open>visited_cells\<close> only if it is the
  coordinate the constructor was given.
\<close>

lemma history_and_visited:
  fixes name h w rocks start path
  defines "s0 \<equiv> LawnmowerSim name h w rocks start"
  defines "sf \<equiv> snd (execute_path (LawnmowerSim name h w rocks start) path)"
  shows "length (visited_cells sf) \<le> length (pos_history sf)"
    and "last (pos_history sf) = last_pos sf"
    and "\<not> did_mower_crash sf \<Longrightarrow> length (pos_history sf) = 1 + length path"
    and "did_mower_crash sf \<Longrightarrow>
           \<exists>pre mv rest. path = pre @ mv # rest
             \<and> \<not> did_mower_crash (snd (execute_path s0 pre))
             \<and> length (pos_history sf) = 1 + (length pre + 1)
             \<and> last (pos_history sf) =
                 candidate (lower mv) (last_pos (snd (execute_path s0 pre)))
             \<and> visited_cells sf = visited_cells (snd (execute_path s0 pre))
             \<and> (last (pos_history sf) \<in> set (keys (visited_cells sf)) \<longrightarrow>
                  last (pos_history sf) = start)"
proof -
  show "length (visited_cells sf) \<le> length (pos_history sf)"
    unfolding sf_def execute_path_object
    by (rule run_path_length_visited) (simp add: LawnmowerSim_fields)
  show "last (pos_history sf) = last_pos sf"
    unfolding sf_def execute_path_object
    by (rule run_path_last_pos) (simp add: LawnmowerSim_fields)
  show "length (pos_history sf) = 1 + length path" if "\<not> did_mower_crash sf"
    using that run_path_no_crash [of s0 0 path]
    by (simp add: sf_def s0_def execute_path_object LawnmowerSim_fields)
  show "\<exists>pre mv rest. path = pre @ mv # rest
             \<and> \<not> did_mower_crash (snd (execute_path s0 pre))
             \<and> length (pos_history sf) = 1 + (length pre + 1)
             \<and> last (pos_history sf) =
                 candidate (lower mv) (last_pos (snd (execute_path s0 pre)))
             \<and> visited_cells sf = visited_cells (snd (execute_path s0 pre))
             \<and> (last (pos_history sf) \<in> set (keys (visited_cells sf)) \<longrightarrow>
                  last (pos_history sf) = start)"
    if crash: "did_mower_crash sf"
  proof -
    have "\<not> did_mower_crash s0"
      by (simp add: s0_def LawnmowerSim_fields)
    moreover have c: "did_mower_crash (run_path s0 0 path)"
      using crash by (simp add: sf_def s0_def execute_path_object)
    ultimately obtain pre mv rest where path: "path = pre @ mv # rest"
      and no: "\<not> did_mower_crash (run_path s0 0 pre)"
      and run: "run_path s0 0 path =
           snd (move (log (run_path s0 0 pre)
                        (msg_move_index (test_name s0) (int (0 + length pre))))
                  (lower mv))"
      using run_path_crash [of s0 0 path] by blast
    let ?sp = "run_path s0 0 pre"
    let ?c = "candidate (lower mv) (last_pos ?sp)"
    have len: "length (pos_history ?sp) = 1 + length pre"
      using run_path_no_crash [OF no] by (simp add: s0_def LawnmowerSim_fields)
    have bad: "?c \<in> set (keys (valid_rocks s0)) \<or> \<not> in_bounds h w ?c"
      using c no unfolding run
      by (simp add: move_changed s0_def LawnmowerSim_fields)
    have vis: "\<forall>c \<in> set (keys (visited_cells ?sp)).
        c = start \<or> in_bounds (grid_height s0) (grid_width s0) c
                     \<and> c \<notin> set (keys (valid_rocks s0))"
      by (rule visited_cells_run_path) (simp add: s0_def LawnmowerSim_fields keys_def)
    have same: "visited_cells (run_path s0 0 path) = visited_cells ?sp"
      using bad unfolding run by (simp add: move_changed s0_def LawnmowerSim_fields)
    have hist: "pos_history (run_path s0 0 path) = pos_history ?sp @ [?c]"
      unfolding run by (simp add: move_changed)
    have in_start: "?c \<in> set (keys (visited_cells ?sp)) \<longrightarrow> ?c = start"
      using vis bad by (auto simp: s0_def LawnmowerSim_fields)
    have sf: "sf = snd (execute_path s0 path)"
      by (simp add: sf_def s0_def)
    have 1: "\<not> did_mower_crash (snd (execute_path s0 pre))"
      using no by (simp add: execute_path_object)
    have 2: "length (pos_history sf) = 1 + (length pre + 1)"
      by (simp add: sf execute_path_object hist len)
    have 3: "last (pos_history sf) =
        candidate (lower mv) (last_pos (snd (execute_path s0 pre)))"
      by (simp add: sf execute_path_object hist)
    have 4: "visited_cells sf = visited_cells (snd (execute_path s0 pre))"
      by (simp add: sf execute_path_object same)
    have 5: "last (pos_history sf) \<in> set (keys (visited_cells sf)) \<longrightarrow>
        last (pos_history sf) = start"
      using in_start by (simp add: sf execute_path_object hist same)
    from path 1 2 3 4 5 show ?thesis
      by blast
  qed
qed

text \<open>
  C3. The constructor records as visited the start coordinate it was given, not the one it
  validated. With a start outside the grid the engine stands on \<open>(0, 0)\<close> and
  \<open>visited_cells\<close> holds the coordinate outside; a move onto that coordinate crashes into
  the fence, and the crash coordinate, last in \<open>pos_history\<close>, is in \<open>visited_cells\<close>
  though the mower was never there.
\<close>

theorem crash_cell_in_visited_cells:
  "did_mower_crash (snd (execute_path (LawnmowerSim ''t'' 1 1 [] (0, 1)) [''right'']))
   \<and> crash_reason (snd (execute_path (LawnmowerSim ''t'' 1 1 [] (0, 1)) [''right''])) =
       ''Crashed into Fence''
   \<and> pos_history (snd (execute_path (LawnmowerSim ''t'' 1 1 [] (0, 1)) [''right''])) =
       [(0, 0), (0, 1)]
   \<and> last (pos_history (snd (execute_path (LawnmowerSim ''t'' 1 1 [] (0, 1)) [''right''])))
       \<in> set (keys (visited_cells
            (snd (execute_path (LawnmowerSim ''t'' 1 1 [] (0, 1)) [''right'']))))
   \<and> keys (visited_cells (snd (execute_path (LawnmowerSim ''t'' 1 1 [] (0, 1)) [''right''])))
       = [(0, 1)]"
  by (simp add: run_simps del: run_path.simps(2))

end
